theory Spec2Isabelle
  imports Complex_Main
begin

section \<open>The platform the two service workers run on\<close>

text \<open>
  The repository holds two variants of one service worker:
  \<^verbatim>\<open>src/static/service-worker.js\<close> (suffix \<open>_static\<close> below) and
  \<^verbatim>\<open>src/unnamed/part_000\<close> (suffix \<open>_part000\<close>). Each is a list of event listeners
  that call the browser's cache storage, network, notification and window interfaces.
  The browser is modelled as a state that every call takes and returns: the cache
  storage, and the calls the worker has issued, in order.
\<close>

subsection \<open>Requests, responses, cache storage\<close>

text \<open>
  A request is identified by its URL, the key under which the cache storage compares
  requests. A response carries its HTTP status and its body.
\<close>

type_synonym request = string

record response =
  status :: nat
  body :: string

definition ok :: "response \<Rightarrow> bool" where
  "ok r = (200 \<le> status r \<and> status r \<le> 299)"

type_synonym cache = "request \<rightharpoonup> response"

text \<open>The cache storage \<^verbatim>\<open>caches\<close>: the named caches, in the order of their creation.\<close>

type_synonym cache_storage = "(string \<times> cache) list"

datatype js_error = SyntaxError | TypeError

subsection \<open>JavaScript values\<close>

text \<open>
  A number is a double: a finite rational value (the sign of zero is not kept), an
  infinity, or NaN.
\<close>

datatype js_number = Finite rat | PosInfinity | NegInfinity | NaN

datatype js_value =
    Undefined
  | Null
  | Boolean bool
  | Number js_number
  | Str string
  | Arr "js_value list"
  | Obj "(string \<times> js_value) list"

text \<open>ToBoolean: the falsy values are undefined, null, false, 0, NaN and the empty string.\<close>

fun truthy :: "js_value \<Rightarrow> bool" where
  "truthy Undefined = False"
| "truthy Null = False"
| "truthy (Boolean b) = b"
| "truthy (Number n) = (n \<noteq> Finite 0 \<and> n \<noteq> NaN)"
| "truthy (Str s) = (s \<noteq> [])"
| "truthy (Arr vs) = True"
| "truthy (Obj kvs) = True"

text \<open>The operator \<^verbatim>\<open>a || b\<close> on values whose evaluation has no effect.\<close>

definition js_or :: "js_value \<Rightarrow> js_value \<Rightarrow> js_value" where
  "js_or a b = (if truthy a then a else b)"

text \<open>
  Property access \<^verbatim>\<open>v.k\<close> for a name \<open>k\<close> that no prototype defines (as \<^verbatim>\<open>title\<close>
  and \<^verbatim>\<open>body\<close>): it throws a TypeError on undefined and null, reads an object's own
  property, and is undefined everywhere else.
\<close>

fun get_prop :: "js_value \<Rightarrow> string \<Rightarrow> js_error + js_value" where
  "get_prop Undefined k = Inl TypeError"
| "get_prop Null k = Inl TypeError"
| "get_prop (Obj kvs) k = Inr (case map_of kvs k of Some v \<Rightarrow> v | None \<Rightarrow> Undefined)"
| "get_prop v k = Inr Undefined"

text \<open>
  \<^verbatim>\<open>String(n)\<close> for an integer \<open>n\<close> below \<open>10\<^sup>2\<^sup>1\<close> in absolute value, which every
  reading of \<^verbatim>\<open>Date.now()\<close> is: the decimal digits, after a minus sign when negative.
\<close>

fun digits :: "nat \<Rightarrow> string" where
  "digits n =
     (if n < 10 then [''0123456789'' ! n]
      else digits (n div 10) @ [''0123456789'' ! (n mod 10)])"

declare digits.simps [simp del]

definition String_int :: "int \<Rightarrow> string" where
  "String_int n = (if n < 0 then CHR ''-'' # digits (nat (- n)) else digits (nat n))"

subsection \<open>Calls of the platform\<close>

type_synonym notification = nat

datatype call =
    CachesOpen string
  | CacheAddAll string "request list"
  | SkipWaiting
  | ClientsClaim
  | CachesMatch request
  | Fetch request
  | ShowNotification js_value "(string \<times> js_value) list"
  | NotificationClose notification
  | OpenWindow string

record platform =
  caches :: cache_storage
  calls :: "call list"

definition issue :: "call \<Rightarrow> platform \<Rightarrow> platform" where
  "issue c s = s\<lparr>calls := calls s @ [c]\<rparr>"

text \<open>
  \<^verbatim>\<open>caches.match(request)\<close>: the entry of the first cache, in creation order, that
  holds the request; undefined (\<open>None\<close>) when no cache holds it.
\<close>

fun storage_match :: "cache_storage \<Rightarrow> request \<Rightarrow> response option" where
  "storage_match [] req = None"
| "storage_match ((name, c) # cs) req =
     (case c req of Some r \<Rightarrow> Some r | None \<Rightarrow> storage_match cs req)"

definition caches_match :: "request \<Rightarrow> platform \<Rightarrow> response option \<times> platform" where
  "caches_match req s = (storage_match (caches s) req, issue (CachesMatch req) s)"

text \<open>
  \<^verbatim>\<open>fetch(request)\<close>: the transport \<open>net\<close> answers with a response or fails
  (\<open>None\<close>), and then the promise rejects with a TypeError. The cache storage is not
  touched.
\<close>

definition fetch :: "(request \<Rightarrow> response option) \<Rightarrow> request \<Rightarrow> platform \<Rightarrow> (js_error + response) \<times> platform" where
  "fetch net req s =
     ((case net req of None \<Rightarrow> Inl TypeError | Some r \<Rightarrow> Inr r), issue (Fetch req) s)"

text \<open>
  \<^verbatim>\<open>caches.open(name)\<close> creates the named cache, empty, when the storage has none
  of that name.
\<close>

definition caches_open :: "string \<Rightarrow> platform \<Rightarrow> platform" where
  "caches_open name s =
     issue (CachesOpen name)
       (if name \<in> fst ` set (caches s) then s
        else s\<lparr>caches := caches s @ [(name, Map.empty)]\<rparr>)"

text \<open>
  \<^verbatim>\<open>cache.addAll(requests)\<close> on the cache of the given name: the platform fetches every
  request; when one fetch fails or one response is not ok, the promise rejects with a
  TypeError and nothing is stored; otherwise every response is stored under its request.
\<close>

definition put_all :: "string \<Rightarrow> request list \<Rightarrow> response list \<Rightarrow> cache_storage \<Rightarrow> cache_storage" where
  "put_all name reqs rs st =
     map (\<lambda>(n, c). if n = name then (n, c ++ map_of (zip reqs rs)) else (n, c)) st"

definition cache_addAll :: "(request \<Rightarrow> response option) \<Rightarrow> string \<Rightarrow> request list \<Rightarrow> platform \<Rightarrow> (js_error + unit) \<times> platform" where
  "cache_addAll net name reqs s =
     (let s1 = issue (CacheAddAll name reqs) s in
      case those (map net reqs) of
        None \<Rightarrow> (Inl TypeError, s1)
      | Some rs \<Rightarrow>
          if list_all ok rs then (Inr (), s1\<lparr>caches := put_all name reqs rs (caches s1)\<rparr>)
          else (Inl TypeError, s1))"

text \<open>The calls below change nothing but the list of calls, and their promises fulfil.\<close>

definition skipWaiting :: "platform \<Rightarrow> platform" where
  "skipWaiting s = issue SkipWaiting s"

definition clients_claim :: "platform \<Rightarrow> (js_error + unit) \<times> platform" where
  "clients_claim s = (Inr (), issue ClientsClaim s)"

definition showNotification :: "js_value \<Rightarrow> (string \<times> js_value) list \<Rightarrow> platform \<Rightarrow> (js_error + unit) \<times> platform" where
  "showNotification title options s = (Inr (), issue (ShowNotification title options) s)"

definition notification_close :: "notification \<Rightarrow> platform \<Rightarrow> platform" where
  "notification_close n s = issue (NotificationClose n) s"

definition openWindow :: "string \<Rightarrow> platform \<Rightarrow> (js_error + unit) \<times> platform" where
  "openWindow url s = (Inr (), issue (OpenWindow url) s)"

section \<open>The install listeners\<close>

text \<open>
  \<^verbatim>\<open>src/static/service-worker.js\<close>: \<^verbatim>\<open>caches.open\<close> is called while the listener runs,
  then \<^verbatim>\<open>self.skipWaiting()\<close>; \<^verbatim>\<open>cache.addAll\<close> is called when the cache has been
  opened. The install event settles as the promise given to \<^verbatim>\<open>event.waitUntil\<close> does.
\<close>

definition assets_static :: "request list" where
  "assets_static =
     [''/'', ''/index.html'', ''/manifest.json'', ''/icon-192.png'', ''/icon-512.png'']"

definition install_static :: "(request \<Rightarrow> response option) \<Rightarrow> platform \<Rightarrow> (js_error + unit) \<times> platform" where
  "install_static net s =
     (let s1 = caches_open ''whosout-v1'' s;
          s2 = skipWaiting s1
      in cache_addAll net ''whosout-v1'' assets_static s2)"

text \<open>\<^verbatim>\<open>src/unnamed/part_000\<close>: three assets, and no \<^verbatim>\<open>skipWaiting\<close>.\<close>

definition assets_part000 :: "request list" where
  "assets_part000 = [''/'', ''/index.html'', ''/manifest.json'']"

definition install_part000 :: "(request \<Rightarrow> response option) \<Rightarrow> platform \<Rightarrow> (js_error + unit) \<times> platform" where
  "install_part000 net s =
     (let s1 = caches_open ''whosout-v1'' s
      in cache_addAll net ''whosout-v1'' assets_part000 s1)"

text \<open>The entry of a request in the cache of a given name; none when there is no such cache.\<close>

definition bucket :: "string \<Rightarrow> platform \<Rightarrow> request \<Rightarrow> response option" where
  "bucket name s req = (case map_of (caches s) name of None \<Rightarrow> None | Some c \<Rightarrow> c req)"

section \<open>The activate listener\<close>

text \<open>Only \<^verbatim>\<open>src/static/service-worker.js\<close> has one.\<close>

definition activate_static :: "platform \<Rightarrow> (js_error + unit) \<times> platform" where
  "activate_static s = clients_claim s"

section \<open>The fetch listeners\<close>

text \<open>
  Both files:
  \<^verbatim>\<open>event.respondWith(caches.match(event.request).then(r => r || fetch(event.request)))\<close>.
  A response object is truthy, so \<^verbatim>\<open>r || ...\<close> takes the right operand exactly when
  the match was undefined.
\<close>

definition fetch_static :: "(request \<Rightarrow> response option) \<Rightarrow> request \<Rightarrow> platform \<Rightarrow> (js_error + response) \<times> platform" where
  "fetch_static net req s =
     (case caches_match req s of
        (Some r, s1) \<Rightarrow> (Inr r, s1)
      | (None, s1) \<Rightarrow> fetch net req s1)"

definition fetch_part000 :: "(request \<Rightarrow> response option) \<Rightarrow> request \<Rightarrow> platform \<Rightarrow> (js_error + response) \<times> platform" where
  "fetch_part000 net req s =
     (case caches_match req s of
        (Some r, s1) \<Rightarrow> (Inr r, s1)
      | (None, s1) \<Rightarrow> fetch net req s1)"

text \<open>The requests of the \<^verbatim>\<open>fetch\<close> calls in a list of calls.\<close>

fun network_calls :: "call list \<Rightarrow> request list" where
  "network_calls [] = []"
| "network_calls (Fetch req # cs) = req # network_calls cs"
| "network_calls (c # cs) = network_calls cs"

section \<open>The push listeners\<close>

text \<open>
  \<^verbatim>\<open>event.data\<close> is null (\<open>None\<close>) when the push message has no payload, and
  otherwise holds the payload's text. \<^verbatim>\<open>event.data.json()\<close> is the platform's JSON
  parser on that text, the parameter \<open>parse\<close>: it throws a SyntaxError (\<open>None\<close>) on a
  text that is not JSON.

  The default title of both files is written with the apostrophe U+2019, in UTF-8 the
  three bytes E2 80 99.
\<close>

definition whos_out :: string where
  "whos_out = ''Who'' @ [CHR 0xE2, CHR 0x80, CHR 0x99] @ ''s Out''"

text \<open>
  \<^verbatim>\<open>src/static/service-worker.js\<close>: the \<^verbatim>\<open>try\<close> block holds the assignment of
  \<^verbatim>\<open>data\<close> only; in the \<^verbatim>\<open>catch\<close> block, \<^verbatim>\<open>event.data && event.data.text()\<close> is
  null on a null \<^verbatim>\<open>event.data\<close> and the text otherwise. \<open>now\<close> is the reading of
  \<^verbatim>\<open>Date.now()\<close>.
\<close>

definition push_static :: "(string \<Rightarrow> js_value option) \<Rightarrow> int \<Rightarrow> string option \<Rightarrow> platform \<Rightarrow> (js_error + unit) \<times> platform" where
  "push_static parse now event_data s =
     (let data =
        (case (case event_data of None \<Rightarrow> Some (Obj []) | Some d \<Rightarrow> parse d) of
           Some v \<Rightarrow> v
         | None \<Rightarrow>
             Obj [(''title'', Str whos_out),
                  (''body'', (case event_data of None \<Rightarrow> Null | Some d \<Rightarrow> Str d))])
      in case get_prop data ''title'' of
           Inl e \<Rightarrow> (Inl e, s)
         | Inr t \<Rightarrow>
             (case get_prop data ''body'' of
                Inl e \<Rightarrow> (Inl e, s)
              | Inr b \<Rightarrow>
                  showNotification (js_or t (Str whos_out))
                    [(''body'', js_or b (Str [])),
                     (''icon'', Str ''/icon-192.png''),
                     (''badge'', Str ''/icon-192.png''),
                     (''tag'', Str (String_int now)),
                     (''renotify'', Boolean False)] s))"

text \<open>\<^verbatim>\<open>src/unnamed/part_000\<close>: no \<^verbatim>\<open>try\<close>; what \<^verbatim>\<open>json()\<close> throws leaves the listener.\<close>

definition push_part000 :: "(string \<Rightarrow> js_value option) \<Rightarrow> string option \<Rightarrow> platform \<Rightarrow> (js_error + unit) \<times> platform" where
  "push_part000 parse event_data s =
     (case (case event_data of None \<Rightarrow> Some (Obj []) | Some d \<Rightarrow> parse d) of
        None \<Rightarrow> (Inl SyntaxError, s)
      | Some data \<Rightarrow>
          (case get_prop data ''title'' of
             Inl e \<Rightarrow> (Inl e, s)
           | Inr t \<Rightarrow>
               (case get_prop data ''body'' of
                  Inl e \<Rightarrow> (Inl e, s)
                | Inr b \<Rightarrow>
                    showNotification (js_or t (Str whos_out))
                      [(''body'', js_or b (Str [])),
                       (''icon'', Str ''/icon-192.png''),
                       (''badge'', Str ''/icon-192.png'')] s)))"

section \<open>The notificationclick listeners\<close>

text \<open>Both files: \<^verbatim>\<open>event.notification.close(); event.waitUntil(clients.openWindow("/"))\<close>.\<close>

definition notificationclick_static :: "notification \<Rightarrow> platform \<Rightarrow> (js_error + unit) \<times> platform" where
  "notificationclick_static n s = (let s1 = notification_close n s in openWindow ''/'' s1)"

definition notificationclick_part000 :: "notification \<Rightarrow> platform \<Rightarrow> (js_error + unit) \<times> platform" where
  "notificationclick_part000 n s = (let s1 = notification_close n s in openWindow ''/'' s1)"

section \<open>The two workers\<close>

text \<open>
  What each file registers with \<^verbatim>\<open>self.addEventListener\<close>. An event settles with an
  error, with the response given to \<^verbatim>\<open>respondWith\<close>, or with nothing to return; an
  event of a type without listener touches nothing.
\<close>

record env =
  env_net :: "request \<Rightarrow> response option"
  env_parse :: "string \<Rightarrow> js_value option"
  env_now :: int

datatype event =
    InstallEvent
  | ActivateEvent
  | FetchEvent request
  | PushEvent "string option"
  | NotificationClickEvent notification

definition settled :: "(js_error + unit) \<times> platform \<Rightarrow> (js_error + response option) \<times> platform" where
  "settled x = (case x of (Inl e, s) \<Rightarrow> (Inl e, s) | (Inr u, s) \<Rightarrow> (Inr None, s))"

definition responded :: "(js_error + response) \<times> platform \<Rightarrow> (js_error + response option) \<times> platform" where
  "responded x = (case x of (Inl e, s) \<Rightarrow> (Inl e, s) | (Inr r, s) \<Rightarrow> (Inr (Some r), s))"

fun worker_static :: "env \<Rightarrow> event \<Rightarrow> platform \<Rightarrow> (js_error + response option) \<times> platform" where
  "worker_static e InstallEvent s = settled (install_static (env_net e) s)"
| "worker_static e ActivateEvent s = settled (activate_static s)"
| "worker_static e (FetchEvent req) s = responded (fetch_static (env_net e) req s)"
| "worker_static e (PushEvent d) s = settled (push_static (env_parse e) (env_now e) d s)"
| "worker_static e (NotificationClickEvent n) s = settled (notificationclick_static n s)"

fun worker_part000 :: "env \<Rightarrow> event \<Rightarrow> platform \<Rightarrow> (js_error + response option) \<times> platform" where
  "worker_part000 e InstallEvent s = settled (install_part000 (env_net e) s)"
| "worker_part000 e ActivateEvent s = (Inr None, s)"
| "worker_part000 e (FetchEvent req) s = responded (fetch_part000 (env_net e) req s)"
| "worker_part000 e (PushEvent d) s = settled (push_part000 (env_parse e) d s)"
| "worker_part000 e (NotificationClickEvent n) s = settled (notificationclick_part000 n s)"

section \<open>Reading the list of calls\<close>

text \<open>The calls issued between a state and a later one.\<close>

definition issued :: "platform \<Rightarrow> platform \<Rightarrow> call list" where
  "issued s s' = drop (length (calls s)) (calls s')"

text \<open>The URLs of the \<^verbatim>\<open>clients.openWindow\<close> calls in a list of calls.\<close>

fun windows_opened :: "call list \<Rightarrow> string list" where
  "windows_opened [] = []"
| "windows_opened (OpenWindow url # cs) = url # windows_opened cs"
| "windows_opened (c # cs) = windows_opened cs"

section \<open>Sequences of events\<close>

text \<open>The state after a worker has handled a list of events, each in its environment.\<close>

fun run_static :: "(env \<times> event) list \<Rightarrow> platform \<Rightarrow> platform" where
  "run_static [] s = s"
| "run_static ((e, ev) # evs) s = run_static evs (snd (worker_static e ev s))"

fun run_part000 :: "(env \<times> event) list \<Rightarrow> platform \<Rightarrow> platform" where
  "run_part000 [] s = s"
| "run_part000 ((e, ev) # evs) s = run_part000 evs (snd (worker_part000 e ev s))"

text \<open>The storage holds no cache, or the cache \<^verbatim>\<open>whosout-v1\<close> and no other.\<close>

definition only_bucket :: "platform \<Rightarrow> bool" where
  "only_bucket s = (map fst (caches s) = [] \<or> map fst (caches s) = [''whosout-v1''])"

section \<open>Example inputs\<close>

text \<open>
  A browser with no cache and no call yet; one whose cache \<^verbatim>\<open>whosout-v1\<close> holds the
  home document; a network that answers every request with status 200; and one that
  answers \<^verbatim>\<open>/manifest.json\<close> with status 404.
\<close>

definition empty_platform :: platform where
  "empty_platform = \<lparr>caches = [], calls = []\<rparr>"

definition example_platform :: platform where
  "example_platform =
     \<lparr>caches = [(''whosout-v1'', [''/'' \<mapsto> \<lparr>status = 200, body = ''home''\<rparr>])], calls = []\<rparr>"

definition net_up :: "request \<Rightarrow> response option" where
  "net_up req = Some \<lparr>status = 200, body = req\<rparr>"

definition net_manifest_404 :: "request \<Rightarrow> response option" where
  "net_manifest_404 req =
     (if req = ''/manifest.json'' then Some \<lparr>status = 404, body = ''Not Found''\<rparr>
      else Some \<lparr>status = 200, body = req\<rparr>)"

text \<open>
  What the JSON parser returns on the payloads used below: three objects, and a
  SyntaxError on every other text, among them \<^verbatim>\<open>Bob is out today\<close>.
\<close>

definition example_parse :: "string \<Rightarrow> js_value option" where
  \<open>example_parse t =
     (if t = ''{"title":"Meeting","body":"Alice is out"}''
        then Some (Obj [(''title'', Str ''Meeting''), (''body'', Str ''Alice is out'')])
      else if t = ''{"title":"","body":"x"}''
        then Some (Obj [(''title'', Str []), (''body'', Str ''x'')])
      else if t = ''{"title":"T","body":0}''
        then Some (Obj [(''title'', Str ''T''), (''body'', Number (Finite 0))])
      else None)\<close>

definition example_env :: env where
  "example_env = \<lparr>env_net = net_up, env_parse = example_parse, env_now = 1730625000123\<rparr>"

section \<open>Facts about the platform calls\<close>

lemma issue_simps:
  "calls (issue c s) = calls s @ [c]" "caches (issue c s) = caches s"
  by (simp_all add: issue_def)

lemma issued_same [simp]: "issued s s = []"
  by (simp add: issued_def)

lemma issued_issue [simp]:
  "issued s (issue c s) = [c]" "issued s (issue c' (issue c s)) = [c, c']"
  by (simp_all add: issued_def issue_def)

text \<open>In a storage that holds one cache, the match is that cache's entry.\<close>

lemma storage_match_single: "storage_match [(name, c)] req = c req"
  by (simp split: option.split)

lemma those_map_Some: "those (map f xs) = Some ys \<Longrightarrow> map f xs = map Some ys"
proof (induction xs arbitrary: ys)
  case Nil
  then show ?case by simp
next
  case (Cons x xs)
  then show ?case by (auto split: option.splits)
qed

lemma map_of_zip_fetched:
  "map f xs = map Some ys \<Longrightarrow> x \<in> set xs \<Longrightarrow> map_of (zip xs ys) x = f x"
proof (induction xs arbitrary: ys)
  case Nil
  then show ?case by simp
next
  case (Cons a xs)
  then obtain y ys' where ys: "ys = y # ys'" by (cases ys) auto
  with Cons show ?case by auto
qed

lemma fetched_in_set:
  "map f xs = map Some ys \<Longrightarrow> x \<in> set xs \<Longrightarrow> \<exists>y. f x = Some y \<and> y \<in> set ys"
proof (induction xs arbitrary: ys)
  case Nil
  then show ?case by simp
next
  case (Cons a xs)
  then obtain y ys' where ys: "ys = y # ys'" by (cases ys) auto
  with Cons show ?case by auto
qed

lemma map_of_put_all:
  "map_of (put_all name reqs rs st) name =
     map_option (\<lambda>c. c ++ map_of (zip reqs rs)) (map_of st name)"
  by (induction st) (auto simp: put_all_def)

text \<open>When \<^verbatim>\<open>addAll\<close> fulfils, every request was answered ok and is stored.\<close>

lemma cache_addAll_stores:
  assumes "cache_addAll net name reqs s = (Inr (), s')"
    and "name \<in> fst ` set (caches s)"
    and "p \<in> set reqs"
  shows "\<exists>r. net p = Some r \<and> ok r \<and> bucket name s' p = Some r"
proof -
  from assms(1) obtain rs where rs: "those (map net reqs) = Some rs" and oks: "list_all ok rs"
    and s': "s' = (issue (CacheAddAll name reqs) s)\<lparr>caches := put_all name reqs rs (caches s)\<rparr>"
    by (auto simp: cache_addAll_def Let_def issue_def split: option.splits if_splits)
  have m: "map net reqs = map Some rs" using rs by (rule those_map_Some)
  from fetched_in_set [OF m assms(3)] obtain r where r: "net p = Some r" "r \<in> set rs" by blast
  from r(2) oks have "ok r" by (simp add: list_all_iff)
  from assms(2) obtain c where c: "map_of (caches s) name = Some c"
    by (metis domIff dom_map_of_conv_image_fst not_Some_eq)
  have "bucket name s' p = (c ++ map_of (zip reqs rs)) p"
    by (simp add: bucket_def s' map_of_put_all c)
  also have "\<dots> = Some r"
    using map_of_zip_fetched [OF m assms(3)] r(1) by (simp add: map_add_def)
  finally show ?thesis using r(1) \<open>ok r\<close> by blast
qed

text \<open>When one request is not answered, or not answered ok, \<^verbatim>\<open>addAll\<close> rejects and stores nothing.\<close>

lemma cache_addAll_fails:
  assumes "p \<in> set reqs" and "case net p of None \<Rightarrow> True | Some r \<Rightarrow> \<not> ok r"
  shows "cache_addAll net name reqs s = (Inl TypeError, issue (CacheAddAll name reqs) s)"
proof (cases "those (map net reqs)")
  case None
  then show ?thesis by (simp add: cache_addAll_def Let_def)
next
  case (Some rs)
  then have m: "map net reqs = map Some rs" by (rule those_map_Some)
  from fetched_in_set [OF m assms(1)] obtain r where r: "net p = Some r" "r \<in> set rs" by blast
  with assms(2) have "\<not> ok r" by simp
  with r(2) have "\<not> list_all ok rs" by (auto simp: list_all_iff)
  with Some show ?thesis by (simp add: cache_addAll_def Let_def)
qed

lemma caches_open_has: "name \<in> fst ` set (caches (caches_open name s))"
  by (simp add: caches_open_def issue_def)

lemma bucket_issue [simp]: "bucket name (issue c s) = bucket name s"
  by (simp add: bucket_def issue_def fun_eq_iff)

lemma bucket_caches_open: "bucket name (caches_open name s) = bucket name s"
proof (cases "name \<in> fst ` set (caches s)")
  case True
  then show ?thesis by (simp add: caches_open_def)
next
  case False
  then have "map_of (caches s) name = None" by (simp add: map_of_eq_None_iff)
  with False show ?thesis by (simp add: caches_open_def bucket_def fun_eq_iff map_add_def)
qed

lemma whos_out_not_empty: "whos_out \<noteq> []"
  by (simp add: whos_out_def)

text \<open>
  Every state that a worker reaches from a browser without caches holds at most the
  cache \<^verbatim>\<open>whosout-v1\<close>, and in such a state \<^verbatim>\<open>caches.match\<close> is the lookup in that cache.
\<close>

lemma storage_match_only_bucket:
  "only_bucket s \<Longrightarrow> storage_match (caches s) req = bucket ''whosout-v1'' s req"
  by (cases "caches s"; cases "tl (caches s)")
     (auto simp: only_bucket_def bucket_def split: option.splits)

lemma only_bucket_issue [simp]: "only_bucket (issue c s) = only_bucket s"
  by (simp add: only_bucket_def issue_def)

lemma only_bucket_caches_open: "only_bucket s \<Longrightarrow> only_bucket (caches_open ''whosout-v1'' s)"
  by (auto simp: only_bucket_def caches_open_def issue_def)

lemma map_fst_put_all: "map fst (put_all name reqs rs st) = map fst st"
  by (induction st) (auto simp: put_all_def)

lemma map_fst_cache_addAll:
  "map fst (caches (snd (cache_addAll net name reqs s))) = map fst (caches s)"
  by (simp add: cache_addAll_def Let_def issue_def map_fst_put_all split: option.splits)

lemma only_bucket_cache_addAll:
  "only_bucket s \<Longrightarrow> only_bucket (snd (cache_addAll net name reqs s))"
  unfolding only_bucket_def map_fst_cache_addAll .

lemma caches_push_static: "caches (snd (push_static parse now d s)) = caches s"
  by (simp add: push_static_def showNotification_def issue_def Let_def split: sum.splits option.splits)

lemma caches_push_part000: "caches (snd (push_part000 parse d s)) = caches s"
  by (simp add: push_part000_def showNotification_def issue_def split: sum.splits option.splits)

lemma snd_settled [simp]: "snd (settled x) = snd x"
  by (cases x) (auto simp: settled_def split: sum.splits)

lemma snd_responded [simp]: "snd (responded x) = snd x"
  by (cases x) (auto simp: responded_def split: sum.splits)

lemma only_bucket_caches_eq: "caches s' = caches s \<Longrightarrow> only_bucket s' = only_bucket s"
  by (simp add: only_bucket_def)

lemma caches_fetch_static: "caches (snd (fetch_static net req s)) = caches s"
  by (simp add: fetch_static_def caches_match_def fetch_def issue_def split: option.split)

lemma caches_fetch_part000: "caches (snd (fetch_part000 net req s)) = caches s"
  by (simp add: fetch_part000_def caches_match_def fetch_def issue_def split: option.split)

lemma only_bucket_worker_static:
  assumes "only_bucket s" shows "only_bucket (snd (worker_static e ev s))"
proof (cases ev)
  case InstallEvent
  with assms show ?thesis
    by (simp add: install_static_def Let_def skipWaiting_def only_bucket_cache_addAll
        only_bucket_caches_open)
next
  case ActivateEvent
  with assms show ?thesis by (simp add: activate_static_def clients_claim_def)
next
  case (FetchEvent req)
  with assms show ?thesis by (simp add: only_bucket_caches_eq [OF caches_fetch_static])
next
  case (PushEvent d)
  with assms show ?thesis by (simp add: only_bucket_caches_eq [OF caches_push_static])
next
  case (NotificationClickEvent n)
  with assms show ?thesis
    by (simp add: notificationclick_static_def notification_close_def openWindow_def)
qed

lemma only_bucket_worker_part000:
  assumes "only_bucket s" shows "only_bucket (snd (worker_part000 e ev s))"
proof (cases ev)
  case InstallEvent
  with assms show ?thesis
    by (simp add: install_part000_def Let_def only_bucket_cache_addAll only_bucket_caches_open)
next
  case ActivateEvent
  with assms show ?thesis by simp
next
  case (FetchEvent req)
  with assms show ?thesis by (simp add: only_bucket_caches_eq [OF caches_fetch_part000])
next
  case (PushEvent d)
  with assms show ?thesis by (simp add: only_bucket_caches_eq [OF caches_push_part000])
next
  case (NotificationClickEvent n)
  with assms show ?thesis
    by (simp add: notificationclick_part000_def notification_close_def openWindow_def)
qed

lemma only_bucket_run_static: "only_bucket s \<Longrightarrow> only_bucket (run_static evs s)"
  by (induction evs s rule: run_static.induct) (simp_all add: only_bucket_worker_static)

lemma only_bucket_run_part000: "only_bucket s \<Longrightarrow> only_bucket (run_part000 evs s)"
  by (induction evs s rule: run_part000.induct) (simp_all add: only_bucket_worker_part000)

lemma only_bucket_empty: "only_bucket empty_platform"
  by (simp add: only_bucket_def empty_platform_def)

section \<open>The fetch reaction\<close>

text \<open>
  Claim C1. In both files, the fetch listener first calls \<^verbatim>\<open>caches.match\<close> on the
  request. When the storage holds an entry for the request, the listener responds with
  that entry and issues no \<^verbatim>\<open>fetch\<close> call. When it holds none, the listener issues
  exactly one \<^verbatim>\<open>fetch\<close> call, for that request, and responds with what the call
  yields: the response of the network, or the rejection when the network fails.
  Where the storage holds no cache but \<^verbatim>\<open>whosout-v1\<close>, as in every state a worker
  reaches from a browser without caches (\<open>only_bucket_run_static\<close>,
  \<open>only_bucket_run_part000\<close>), the entry looked up is the entry of that cache under the
  request.
\<close>

theorem fetch_cache_first:
  "(storage_match (caches s) req = Some r \<longrightarrow>
      fst (fetch_static net req s) = Inr r \<and>
      issued s (snd (fetch_static net req s)) = [CachesMatch req] \<and>
      network_calls (issued s (snd (fetch_static net req s))) = [] \<and>
      fst (fetch_part000 net req s) = Inr r \<and>
      issued s (snd (fetch_part000 net req s)) = [CachesMatch req] \<and>
      network_calls (issued s (snd (fetch_part000 net req s))) = []) \<and>
   (storage_match (caches s) req = None \<longrightarrow>
      fst (fetch_static net req s) = (case net req of None \<Rightarrow> Inl TypeError | Some r' \<Rightarrow> Inr r') \<and>
      issued s (snd (fetch_static net req s)) = [CachesMatch req, Fetch req] \<and>
      network_calls (issued s (snd (fetch_static net req s))) = [req] \<and>
      fst (fetch_part000 net req s) = (case net req of None \<Rightarrow> Inl TypeError | Some r' \<Rightarrow> Inr r') \<and>
      issued s (snd (fetch_part000 net req s)) = [CachesMatch req, Fetch req] \<and>
      network_calls (issued s (snd (fetch_part000 net req s))) = [req]) \<and>
   (only_bucket s \<longrightarrow> storage_match (caches s) req = bucket ''whosout-v1'' s req)"
  by (simp add: fetch_static_def fetch_part000_def caches_match_def fetch_def
      storage_match_only_bucket)

text \<open>
  A hit on the cached home document, and a miss on \<^verbatim>\<open>/api/out\<close> that the network
  answers.
\<close>

theorem fetch_cache_first_witness:
  "only_bucket example_platform \<and>
   bucket ''whosout-v1'' example_platform ''/'' = Some \<lparr>status = 200, body = ''home''\<rparr> \<and>
   bucket ''whosout-v1'' example_platform ''/api/out'' = None \<and>
   storage_match (caches example_platform) ''/'' = Some \<lparr>status = 200, body = ''home''\<rparr> \<and>
   fst (fetch_static net_up ''/'' example_platform) = Inr \<lparr>status = 200, body = ''home''\<rparr> \<and>
   network_calls (issued example_platform (snd (fetch_static net_up ''/'' example_platform))) = [] \<and>
   fst (fetch_part000 net_up ''/'' example_platform) = Inr \<lparr>status = 200, body = ''home''\<rparr> \<and>
   network_calls (issued example_platform (snd (fetch_part000 net_up ''/'' example_platform))) = [] \<and>
   storage_match (caches example_platform) ''/api/out'' = None \<and>
   fst (fetch_static net_up ''/api/out'' example_platform)
     = Inr \<lparr>status = 200, body = ''/api/out''\<rparr> \<and>
   network_calls (issued example_platform (snd (fetch_static net_up ''/api/out'' example_platform)))
     = [''/api/out''] \<and>
   fst (fetch_part000 net_up ''/api/out'' example_platform)
     = Inr \<lparr>status = 200, body = ''/api/out''\<rparr> \<and>
   network_calls (issued example_platform (snd (fetch_part000 net_up ''/api/out'' example_platform)))
     = [''/api/out'']"
proof -
  have hit: "storage_match (caches example_platform) ''/'' = Some \<lparr>status = 200, body = ''home''\<rparr>"
    by (simp add: example_platform_def)
  have miss: "storage_match (caches example_platform) ''/api/out'' = None"
    by (simp add: example_platform_def)
  have only: "only_bucket example_platform"
    by (simp add: only_bucket_def example_platform_def)
  show ?thesis
    using hit miss only
      fetch_cache_first [of example_platform "''/''" "\<lparr>status = 200, body = ''home''\<rparr>" net_up]
      fetch_cache_first [of example_platform "''/api/out''" "\<lparr>status = 200, body = ''home''\<rparr>" net_up]
    by (simp add: net_up_def)
qed

text \<open>
  Claim C6. In both files, the fetch listener leaves the cache storage, and so the
  content of the cache \<^verbatim>\<open>whosout-v1\<close>, as it found it, for every request, every
  storage and every answer of the network: on a miss the fetched response is returned
  and not stored.
\<close>

theorem fetch_never_writes:
  "caches (snd (fetch_static net req s)) = caches s \<and>
   bucket ''whosout-v1'' (snd (fetch_static net req s)) = bucket ''whosout-v1'' s \<and>
   caches (snd (fetch_part000 net req s)) = caches s \<and>
   bucket ''whosout-v1'' (snd (fetch_part000 net req s)) = bucket ''whosout-v1'' s"
  by (simp add: fetch_static_def fetch_part000_def caches_match_def fetch_def issue_def
      bucket_def fun_eq_iff split: option.split)

section \<open>The install reaction\<close>

text \<open>
  Claim C2. In both files, when the promise given to \<^verbatim>\<open>waitUntil\<close> fulfils, every
  path of the file's asset list was fetched with an ok response and that response is
  stored under the path in the cache \<^verbatim>\<open>whosout-v1\<close>. When the fetch of one asset
  fails (no answer, or an answer that is not ok), the promise rejects and the content of
  the cache is what it was before the event: no asset is stored.
\<close>

theorem install_all_or_nothing:
  "(install_static net s = (Inr (), s') \<longrightarrow>
      (\<forall>p \<in> set assets_static.
         \<exists>r. net p = Some r \<and> ok r \<and> bucket ''whosout-v1'' s' p = Some r)) \<and>
   ((\<exists>p \<in> set assets_static. case net p of None \<Rightarrow> True | Some r \<Rightarrow> \<not> ok r) \<longrightarrow>
      fst (install_static net s) = Inl TypeError \<and>
      bucket ''whosout-v1'' (snd (install_static net s)) = bucket ''whosout-v1'' s) \<and>
   (install_part000 net s = (Inr (), s'') \<longrightarrow>
      (\<forall>p \<in> set assets_part000.
         \<exists>r. net p = Some r \<and> ok r \<and> bucket ''whosout-v1'' s'' p = Some r)) \<and>
   ((\<exists>p \<in> set assets_part000. case net p of None \<Rightarrow> True | Some r \<Rightarrow> \<not> ok r) \<longrightarrow>
      fst (install_part000 net s) = Inl TypeError \<and>
      bucket ''whosout-v1'' (snd (install_part000 net s)) = bucket ''whosout-v1'' s)"
proof (intro conjI impI ballI)
  fix p
  assume "install_static net s = (Inr (), s')" and "p \<in> set assets_static"
  then show "\<exists>r. net p = Some r \<and> ok r \<and> bucket ''whosout-v1'' s' p = Some r"
    by (intro cache_addAll_stores [where reqs = assets_static
          and s = "skipWaiting (caches_open ''whosout-v1'' s)"])
       (simp_all add: install_static_def Let_def skipWaiting_def issue_simps caches_open_has)
next
  assume "\<exists>p \<in> set assets_static. case net p of None \<Rightarrow> True | Some r \<Rightarrow> \<not> ok r"
  then obtain p where "p \<in> set assets_static"
    and "case net p of None \<Rightarrow> True | Some r \<Rightarrow> \<not> ok r"
    by blast
  then have "install_static net s =
      (Inl TypeError,
       issue (CacheAddAll ''whosout-v1'' assets_static) (skipWaiting (caches_open ''whosout-v1'' s)))"
    by (simp add: install_static_def Let_def cache_addAll_fails)
  then show "fst (install_static net s) = Inl TypeError"
    and "bucket ''whosout-v1'' (snd (install_static net s)) = bucket ''whosout-v1'' s"
    by (simp_all add: skipWaiting_def bucket_caches_open)
next
  fix p
  assume "install_part000 net s = (Inr (), s'')" and "p \<in> set assets_part000"
  then show "\<exists>r. net p = Some r \<and> ok r \<and> bucket ''whosout-v1'' s'' p = Some r"
    by (intro cache_addAll_stores [where reqs = assets_part000
          and s = "caches_open ''whosout-v1'' s"])
       (simp_all add: install_part000_def Let_def caches_open_has)
next
  assume "\<exists>p \<in> set assets_part000. case net p of None \<Rightarrow> True | Some r \<Rightarrow> \<not> ok r"
  then obtain p where "p \<in> set assets_part000"
    and "case net p of None \<Rightarrow> True | Some r \<Rightarrow> \<not> ok r"
    by blast
  then have "install_part000 net s =
      (Inl TypeError, issue (CacheAddAll ''whosout-v1'' assets_part000) (caches_open ''whosout-v1'' s))"
    by (simp add: install_part000_def Let_def cache_addAll_fails)
  then show "fst (install_part000 net s) = Inl TypeError"
    and "bucket ''whosout-v1'' (snd (install_part000 net s)) = bucket ''whosout-v1'' s"
    by (simp_all add: bucket_caches_open)
qed

text \<open>
  On a network that answers everything, both installs fulfil and the last asset of each
  list is in the cache; on the network that answers \<^verbatim>\<open>/manifest.json\<close> with 404, both
  installs reject and the cache holds what it held before.
\<close>

theorem install_all_or_nothing_witness:
  "fst (install_static net_up empty_platform) = Inr () \<and>
   (\<exists>r. net_up ''/icon-512.png'' = Some r \<and> ok r \<and>
      bucket ''whosout-v1'' (snd (install_static net_up empty_platform)) ''/icon-512.png'' = Some r) \<and>
   fst (install_part000 net_up empty_platform) = Inr () \<and>
   (\<exists>r. net_up ''/manifest.json'' = Some r \<and> ok r \<and>
      bucket ''whosout-v1'' (snd (install_part000 net_up empty_platform)) ''/manifest.json'' = Some r) \<and>
   net_manifest_404 ''/manifest.json'' = Some \<lparr>status = 404, body = ''Not Found''\<rparr> \<and>
   \<not> ok \<lparr>status = 404, body = ''Not Found''\<rparr> \<and>
   fst (install_static net_manifest_404 empty_platform) = Inl TypeError \<and>
   bucket ''whosout-v1'' (snd (install_static net_manifest_404 empty_platform))
     = bucket ''whosout-v1'' empty_platform \<and>
   fst (install_part000 net_manifest_404 empty_platform) = Inl TypeError \<and>
   bucket ''whosout-v1'' (snd (install_part000 net_manifest_404 empty_platform))
     = bucket ''whosout-v1'' empty_platform"
proof -
  have ok1: "fst (install_static net_up empty_platform) = Inr ()"
    by (simp add: install_static_def Let_def cache_addAll_def assets_static_def net_up_def ok_def)
  have ok2: "fst (install_part000 net_up empty_platform) = Inr ()"
    by (simp add: install_part000_def Let_def cache_addAll_def assets_part000_def net_up_def ok_def)
  have h1: "install_static net_up empty_platform
      = (Inr (), snd (install_static net_up empty_platform))"
    using ok1 by (simp add: prod_eq_iff)
  have h2: "install_part000 net_up empty_platform
      = (Inr (), snd (install_part000 net_up empty_platform))"
    using ok2 by (simp add: prod_eq_iff)
  have a1: "''/icon-512.png'' \<in> set assets_static" by (simp add: assets_static_def)
  have a2: "''/manifest.json'' \<in> set assets_part000" by (simp add: assets_part000_def)
  have a3: "''/manifest.json'' \<in> set assets_static" by (simp add: assets_static_def)
  have bad: "net_manifest_404 ''/manifest.json'' = Some \<lparr>status = 404, body = ''Not Found''\<rparr>"
    "\<not> ok \<lparr>status = 404, body = ''Not Found''\<rparr>"
    by (simp_all add: net_manifest_404_def ok_def)
  have f1: "\<exists>p\<in>set assets_static. case net_manifest_404 p of None \<Rightarrow> True | Some r \<Rightarrow> \<not> ok r"
    using a3 bad by (intro bexI [of _ "''/manifest.json''"]) simp_all
  have f2: "\<exists>p\<in>set assets_part000. case net_manifest_404 p of None \<Rightarrow> True | Some r \<Rightarrow> \<not> ok r"
    using a2 bad by (intro bexI [of _ "''/manifest.json''"]) simp_all
  note up = install_all_or_nothing [of net_up empty_platform
      "snd (install_static net_up empty_platform)" "snd (install_part000 net_up empty_platform)"]
  note down = install_all_or_nothing [of net_manifest_404 empty_platform
      "snd (install_static net_manifest_404 empty_platform)"
      "snd (install_part000 net_manifest_404 empty_platform)"]
  from up h1 a1 have s1: "\<exists>r. net_up ''/icon-512.png'' = Some r \<and> ok r \<and>
      bucket ''whosout-v1'' (snd (install_static net_up empty_platform)) ''/icon-512.png'' = Some r"
    by blast
  from up h2 a2 have s2: "\<exists>r. net_up ''/manifest.json'' = Some r \<and> ok r \<and>
      bucket ''whosout-v1'' (snd (install_part000 net_up empty_platform)) ''/manifest.json'' = Some r"
    by blast
  from down f1 have d1: "fst (install_static net_manifest_404 empty_platform) = Inl TypeError"
    "bucket ''whosout-v1'' (snd (install_static net_manifest_404 empty_platform))
       = bucket ''whosout-v1'' empty_platform"
    by blast+
  from down f2 have d2: "fst (install_part000 net_manifest_404 empty_platform) = Inl TypeError"
    "bucket ''whosout-v1'' (snd (install_part000 net_manifest_404 empty_platform))
       = bucket ''whosout-v1'' empty_platform"
    by blast+
  from ok1 ok2 s1 s2 bad d1 d2 show ?thesis by blast
qed

section \<open>The activate reaction\<close>

text \<open>
  Claim C7, as amended. On every activate event, the worker of
  \<^verbatim>\<open>src/static/service-worker.js\<close> calls \<^verbatim>\<open>self.clients.claim()\<close> and nothing else;
  the worker of \<^verbatim>\<open>src/unnamed/part_000\<close> registers no activate listener, and the event
  leaves the platform as it was.
\<close>

theorem activate_claims_static_only:
  "worker_static e ActivateEvent s = (Inr None, s\<lparr>calls := calls s @ [ClientsClaim]\<rparr>) \<and>
   worker_part000 e ActivateEvent s = (Inr None, s)"
  by (simp add: activate_static_def clients_claim_def settled_def issue_def)

text \<open>
  Claim C7 as stated fails for \<^verbatim>\<open>src/unnamed/part_000\<close>: after an activate event on a
  fresh platform, no \<^verbatim>\<open>clients.claim\<close> call has been issued.
\<close>

theorem activate_part000_counterexample:
  "worker_part000 example_env ActivateEvent empty_platform = (Inr None, empty_platform) \<and>
   ClientsClaim \<notin> set (calls (snd (worker_part000 example_env ActivateEvent empty_platform)))"
  by (simp add: empty_platform_def)

section \<open>The notification-click reaction\<close>

text \<open>
  Claim C8. In both files, for every clicked notification, the listener issues exactly
  two calls: first \<^verbatim>\<open>close\<close> on the clicked notification, then one
  \<^verbatim>\<open>clients.openWindow\<close> on the root path \<^verbatim>\<open>/\<close>.
\<close>

theorem notificationclick_closes_then_opens_root:
  "notificationclick_static n s
     = (Inr (), s\<lparr>calls := calls s @ [NotificationClose n, OpenWindow ''/'']\<rparr>) \<and>
   windows_opened (issued s (snd (notificationclick_static n s))) = [''/''] \<and>
   notificationclick_part000 n s
     = (Inr (), s\<lparr>calls := calls s @ [NotificationClose n, OpenWindow ''/'']\<rparr>) \<and>
   windows_opened (issued s (snd (notificationclick_part000 n s))) = [''/'']"
  by (simp add: notificationclick_static_def notificationclick_part000_def notification_close_def
      openWindow_def issue_def issued_def)

section \<open>The push reaction\<close>

text \<open>
  On a payload that the JSON parser rejects, \<^verbatim>\<open>src/static/service-worker.js\<close> shows
  the default title with the payload's text as body.
\<close>

lemma push_static_text_fallback:
  "parse d = None \<Longrightarrow>
   push_static parse now (Some d) s =
     (Inr (), issue (ShowNotification (Str whos_out)
        [(''body'', Str d), (''icon'', Str ''/icon-192.png''), (''badge'', Str ''/icon-192.png''),
         (''tag'', Str (String_int now)), (''renotify'', Boolean False)]) s)"
  by (simp add: push_static_def showNotification_def js_or_def whos_out_not_empty)

text \<open>On such a payload, \<^verbatim>\<open>src/unnamed/part_000\<close> throws and shows nothing.\<close>

lemma push_part000_text_throws:
  "parse d = None \<Longrightarrow> push_part000 parse (Some d) s = (Inl SyntaxError, s)"
  by (simp add: push_part000_def)

text \<open>
  Claim C3, at the payload \<^verbatim>\<open>Bob is out today\<close>, which is not JSON. The listener of
  \<^verbatim>\<open>src/unnamed/part_000\<close> ends with the SyntaxError of \<^verbatim>\<open>event.data.json()\<close> and has
  issued no call: no notification is shown. The listener of
  \<^verbatim>\<open>src/static/service-worker.js\<close> catches the error and shows the default title with
  the text as body.
\<close>

theorem push_part000_text_payload_throws:
  "example_parse ''Bob is out today'' = None \<and>
   push_part000 example_parse (Some ''Bob is out today'') empty_platform
     = (Inl SyntaxError, empty_platform) \<and>
   calls (snd (push_part000 example_parse (Some ''Bob is out today'') empty_platform)) = [] \<and>
   push_static example_parse 1730625000123 (Some ''Bob is out today'') empty_platform
     = (Inr (), \<lparr>caches = [], calls = [ShowNotification (Str whos_out)
          [(''body'', Str ''Bob is out today''), (''icon'', Str ''/icon-192.png''),
           (''badge'', Str ''/icon-192.png''), (''tag'', Str ''1730625000123''),
           (''renotify'', Boolean False)]]\<rparr>)"
  by (simp add: example_parse_def push_part000_def push_static_def empty_platform_def
      showNotification_def issue_def js_or_def whos_out_def String_int_def digits.simps)

text \<open>
  Claim C4, as amended. In both files, for every payload that parses as a JSON object
  whose \<^verbatim>\<open>title\<close> and \<^verbatim>\<open>body\<close> are both present and truthy (for a string: not empty),
  the listener shows one notification whose title and body are exactly those two
  values.
\<close>

theorem push_truthy_fields:
  assumes "parse d = Some (Obj kvs)"
    and "map_of kvs ''title'' = Some t" and "map_of kvs ''body'' = Some b"
    and "truthy t" and "truthy b"
  shows "push_static parse now (Some d) s =
           (Inr (), issue (ShowNotification t
              [(''body'', b), (''icon'', Str ''/icon-192.png''), (''badge'', Str ''/icon-192.png''),
               (''tag'', Str (String_int now)), (''renotify'', Boolean False)]) s) \<and>
         push_part000 parse (Some d) s =
           (Inr (), issue (ShowNotification t
              [(''body'', b), (''icon'', Str ''/icon-192.png''),
               (''badge'', Str ''/icon-192.png'')]) s)"
  using assms by (simp add: push_static_def push_part000_def showNotification_def js_or_def)

text \<open>
  The payload \<^verbatim>\<open>{"title":"Meeting","body":"Alice is out"}\<close> is shown with title
  \<^verbatim>\<open>Meeting\<close> and body \<^verbatim>\<open>Alice is out\<close>.
\<close>

theorem push_truthy_fields_witness:
  \<open>example_parse ''{"title":"Meeting","body":"Alice is out"}''
     = Some (Obj [(''title'', Str ''Meeting''), (''body'', Str ''Alice is out'')]) \<and>
   truthy (Str ''Meeting'') \<and> truthy (Str ''Alice is out'') \<and>
   push_static example_parse 1730625000123
       (Some ''{"title":"Meeting","body":"Alice is out"}'') empty_platform =
     (Inr (), issue (ShowNotification (Str ''Meeting'')
        [(''body'', Str ''Alice is out''), (''icon'', Str ''/icon-192.png''),
         (''badge'', Str ''/icon-192.png''), (''tag'', Str (String_int 1730625000123)),
         (''renotify'', Boolean False)]) empty_platform) \<and>
   push_part000 example_parse (Some ''{"title":"Meeting","body":"Alice is out"}'') empty_platform =
     (Inr (), issue (ShowNotification (Str ''Meeting'')
        [(''body'', Str ''Alice is out''), (''icon'', Str ''/icon-192.png''),
         (''badge'', Str ''/icon-192.png'')]) empty_platform)\<close>
proof -
  have p: \<open>example_parse ''{"title":"Meeting","body":"Alice is out"}''
     = Some (Obj [(''title'', Str ''Meeting''), (''body'', Str ''Alice is out'')])\<close>
    by (simp add: example_parse_def)
  show ?thesis
    using p push_truthy_fields [where parse = example_parse
        and d = \<open>''{"title":"Meeting","body":"Alice is out"}''\<close>
        and kvs = "[(''title'', Str ''Meeting''), (''body'', Str ''Alice is out'')]"
        and t = "Str ''Meeting''" and b = "Str ''Alice is out''"
        and now = 1730625000123 and s = empty_platform]
    by simp
qed

text \<open>
  Claim C4 as stated fails at the payload \<^verbatim>\<open>{"title":"","body":"x"}\<close>: both fields are
  present, and both files show the default title, not the payload's empty title.
\<close>

theorem push_empty_title_counterexample:
  \<open>example_parse ''{"title":"","body":"x"}''
     = Some (Obj [(''title'', Str []), (''body'', Str ''x'')]) \<and>
   push_static example_parse 0 (Some ''{"title":"","body":"x"}'') empty_platform =
     (Inr (), \<lparr>caches = [], calls = [ShowNotification (Str whos_out)
        [(''body'', Str ''x''), (''icon'', Str ''/icon-192.png''),
         (''badge'', Str ''/icon-192.png''), (''tag'', Str ''0''),
         (''renotify'', Boolean False)]]\<rparr>) \<and>
   push_part000 example_parse (Some ''{"title":"","body":"x"}'') empty_platform =
     (Inr (), \<lparr>caches = [], calls = [ShowNotification (Str whos_out)
        [(''body'', Str ''x''), (''icon'', Str ''/icon-192.png''),
         (''badge'', Str ''/icon-192.png'')]]\<rparr>) \<and>
   Str whos_out \<noteq> Str []\<close>
  by (simp add: example_parse_def push_part000_def push_static_def empty_platform_def
      showNotification_def issue_def js_or_def whos_out_not_empty String_int_def digits.simps)

text \<open>
  Claim C5. In both files, on a push event without payload the listener shows one
  notification with the default title (\<open>whos_out\<close>, the title literal of the source) and
  the empty string as body.
\<close>

theorem push_no_payload:
  "push_static parse now None s =
     (Inr (), issue (ShowNotification (Str whos_out)
        [(''body'', Str []), (''icon'', Str ''/icon-192.png''), (''badge'', Str ''/icon-192.png''),
         (''tag'', Str (String_int now)), (''renotify'', Boolean False)]) s) \<and>
   push_part000 parse None s =
     (Inr (), issue (ShowNotification (Str whos_out)
        [(''body'', Str []), (''icon'', Str ''/icon-192.png''),
         (''badge'', Str ''/icon-192.png'')]) s)"
  by (simp add: push_static_def push_part000_def showNotification_def js_or_def)

text \<open>
  Claim C9. Every notification that the listener of \<^verbatim>\<open>src/static/service-worker.js\<close>
  shows has the option \<^verbatim>\<open>tag\<close> equal to the string form of the reading of
  \<^verbatim>\<open>Date.now()\<close> and the option \<^verbatim>\<open>renotify\<close> equal to false; every notification that
  the listener of \<^verbatim>\<open>src/unnamed/part_000\<close> shows has neither option.
\<close>

theorem push_tag_renotify:
  "(\<forall>t opts. ShowNotification t opts \<in> set (issued s (snd (push_static parse now ev s))) \<longrightarrow>
      map_of opts ''tag'' = Some (Str (String_int now)) \<and>
      map_of opts ''renotify'' = Some (Boolean False)) \<and>
   (\<forall>t opts. ShowNotification t opts \<in> set (issued s (snd (push_part000 parse ev s))) \<longrightarrow>
      map_of opts ''tag'' = None \<and> map_of opts ''renotify'' = None)"
  by (auto simp: push_static_def push_part000_def showNotification_def Let_def
      split: option.splits sum.splits)

text \<open>
  A push without payload at the clock reading 1730625000123: each file shows a
  notification, the first with the tag \<^verbatim>\<open>1730625000123\<close>.
\<close>

theorem push_tag_renotify_witness:
  "ShowNotification (Str whos_out)
      [(''body'', Str []), (''icon'', Str ''/icon-192.png''), (''badge'', Str ''/icon-192.png''),
       (''tag'', Str ''1730625000123''), (''renotify'', Boolean False)]
     \<in> set (issued empty_platform
          (snd (push_static example_parse 1730625000123 None empty_platform))) \<and>
   map_of [(''body'', Str []), (''icon'', Str ''/icon-192.png''), (''badge'', Str ''/icon-192.png''),
       (''tag'', Str ''1730625000123''), (''renotify'', Boolean False)] ''tag''
     = Some (Str (String_int 1730625000123)) \<and>
   ShowNotification (Str whos_out)
      [(''body'', Str []), (''icon'', Str ''/icon-192.png''), (''badge'', Str ''/icon-192.png'')]
     \<in> set (issued empty_platform (snd (push_part000 example_parse None empty_platform))) \<and>
   map_of [(''body'', Str []), (''icon'', Str ''/icon-192.png''), (''badge'', Str ''/icon-192.png'')]
       ''tag'' = None"
  using push_tag_renotify [of empty_platform example_parse 1730625000123 None]
  by (simp add: push_static_def push_part000_def showNotification_def js_or_def
      String_int_def digits.simps)

text \<open>
  Claim C10. In both files, for every payload that parses as a JSON object: when its
  \<^verbatim>\<open>title\<close> is falsy (the empty string among the falsy values), the notification shown
  has the default title, which is not the empty string; when its \<^verbatim>\<open>body\<close> is falsy,
  the notification shown has the empty string as body.
\<close>

theorem push_falsy_defaults:
  assumes "parse d = Some (Obj kvs)"
  shows "(map_of kvs ''title'' = Some t \<and> \<not> truthy t \<longrightarrow>
            (\<exists>opts. push_static parse now (Some d) s =
               (Inr (), issue (ShowNotification (Str whos_out) opts) s)) \<and>
            (\<exists>opts. push_part000 parse (Some d) s =
               (Inr (), issue (ShowNotification (Str whos_out) opts) s)) \<and>
            Str whos_out \<noteq> Str []) \<and>
         (map_of kvs ''body'' = Some b \<and> \<not> truthy b \<longrightarrow>
            (\<exists>t' rest. push_static parse now (Some d) s =
               (Inr (), issue (ShowNotification t' ((''body'', Str []) # rest)) s)) \<and>
            (\<exists>t' rest. push_part000 parse (Some d) s =
               (Inr (), issue (ShowNotification t' ((''body'', Str []) # rest)) s)))"
  using assms
  by (auto simp: push_static_def push_part000_def showNotification_def js_or_def whos_out_not_empty
      split: option.splits)

text \<open>
  The payload \<^verbatim>\<open>{"title":"","body":"x"}\<close> is shown with the default title, and the
  payload \<^verbatim>\<open>{"title":"T","body":0}\<close> with the empty body.
\<close>

theorem push_falsy_defaults_witness:
  \<open>example_parse ''{"title":"","body":"x"}''
     = Some (Obj [(''title'', Str []), (''body'', Str ''x'')]) \<and>
   \<not> truthy (Str []) \<and>
   (\<exists>opts. push_static example_parse 0 (Some ''{"title":"","body":"x"}'') empty_platform =
      (Inr (), issue (ShowNotification (Str whos_out) opts) empty_platform)) \<and>
   (\<exists>opts. push_part000 example_parse (Some ''{"title":"","body":"x"}'') empty_platform =
      (Inr (), issue (ShowNotification (Str whos_out) opts) empty_platform)) \<and>
   example_parse ''{"title":"T","body":0}''
     = Some (Obj [(''title'', Str ''T''), (''body'', Number (Finite 0))]) \<and>
   \<not> truthy (Number (Finite 0)) \<and>
   (\<exists>t' rest. push_static example_parse 0 (Some ''{"title":"T","body":0}'') empty_platform =
      (Inr (), issue (ShowNotification t' ((''body'', Str []) # rest)) empty_platform)) \<and>
   (\<exists>t' rest. push_part000 example_parse (Some ''{"title":"T","body":0}'') empty_platform =
      (Inr (), issue (ShowNotification t' ((''body'', Str []) # rest)) empty_platform))\<close>
proof -
  have p1: \<open>example_parse ''{"title":"","body":"x"}''
      = Some (Obj [(''title'', Str []), (''body'', Str ''x'')])\<close>
    by (simp add: example_parse_def)
  have p2: \<open>example_parse ''{"title":"T","body":0}''
      = Some (Obj [(''title'', Str ''T''), (''body'', Number (Finite 0))])\<close>
    by (simp add: example_parse_def)
  show ?thesis
    using p1 p2
      push_falsy_defaults [where parse = example_parse
        and d = \<open>''{"title":"","body":"x"}''\<close>
        and kvs = "[(''title'', Str []), (''body'', Str ''x'')]"
        and t = "Str []" and b = "Str ''x''" and now = 0 and s = empty_platform]
      push_falsy_defaults [where parse = example_parse
        and d = \<open>''{"title":"T","body":0}''\<close>
        and kvs = "[(''title'', Str ''T''), (''body'', Number (Finite 0))]"
        and t = "Str ''T''" and b = "Number (Finite 0)" and now = 0 and s = empty_platform]
    by simp
qed

end
